theory Spec2Isabelle
  imports Complex_Main
begin

section \<open>Go values: errors, float64 amounts, the records of package models\<close>

text \<open>
  A Go \<^verbatim>\<open>error\<close> is a message, possibly wrapped around the error that caused it:
  \<^verbatim>\<open>errors.New(m)\<close> and \<^verbatim>\<open>fmt.Errorf(m)\<close> are \<open>New m\<close>, and
  \<^verbatim>\<open>fmt.Errorf("prefix: %w", err)\<close> is \<open>Wrap ''prefix: '' err\<close>, whose \<^verbatim>\<open>Error()\<close> text is the
  prefix followed by the text of \<open>err\<close> and whose \<^verbatim>\<open>Unwrap()\<close> is \<open>err\<close>.
\<close>

datatype error = New string | Wrap string error

fun Error :: "error \<Rightarrow> string" where
  "Error (New m) = m"
| "Error (Wrap p e) = p @ Error e"

fun Unwrap :: "error \<Rightarrow> error option" where
  "Unwrap (New m) = None"
| "Unwrap (Wrap p e) = Some e"

text \<open>
  Amounts and balances are \<^verbatim>\<open>float64\<close> in the source. They are the type parameter \<open>'f\<close>
  here, with \<open>+\<close>, \<open>-\<close>, \<open><\<close>, \<open>\<le>\<close> and \<open>0\<close> taken from the syntactic classes
  \<open>plus\<close>, \<open>minus\<close>, \<open>ord\<close> and \<open>zero\<close>: no law of arithmetic is assumed by the
  definitions, so what is proved of them holds for IEEE doubles as for exact numbers. The
  \<^verbatim>\<open>%.2f\<close> verb of package fmt is the parameter \<open>fmt2f\<close> of the functions that print
  an amount. Times are natural numbers; logging and the \<^verbatim>\<open>context.Context\<close> are left out.
\<close>

record 'f Account =
  acc_ID :: string
  acc_OwnerName :: string
  acc_Balance :: 'f
  acc_CreatedAt :: nat
  acc_UpdatedAt :: nat

record 'f Transaction =
  txn_ID :: string
  txn_TransactionID :: string
  txn_AccountID :: string
  txn_Type :: string
  txn_Amount :: 'f
  txn_PreviousBalance :: 'f
  txn_NewBalance :: 'f
  txn_Description :: string
  txn_Timestamp :: nat
  txn_Status :: string
  txn_ErrorMessage :: string

record 'f TransactionRequest =
  req_Type :: string
  req_Amount :: 'f
  req_Description :: string

text \<open>The message of package queue that carries a pending transaction to a worker.\<close>

record 'f TransactionMessage =
  msg_ID :: string
  msg_AccountID :: string
  msg_Type :: string
  msg_Amount :: 'f
  msg_Reference :: string
  msg_CreatedAt :: nat

section \<open>The world: both stores, the queue and the outcomes of the driver calls\<close>

text \<open>
  \<open>accounts\<close> is the table \<^verbatim>\<open>accounts\<close> of PostgreSQL (primary key \<^verbatim>\<open>id\<close>),
  \<open>transactions\<close> the MongoDB collection in insertion order, \<open>queue\<close> the messages
  published to RabbitMQ. A call of a database or queue driver can fail for reasons outside
  the program; \<open>pg\<close>, \<open>mongo\<close> and \<open>amqp\<close> script the outcomes of the coming calls of
  each driver, in order: \<open>None\<close> lets the call through, \<open>Some e\<close> makes it return the
  driver error \<open>e\<close>, and a call beyond the end of the script goes through. \<open>uuids\<close>
  feeds \<^verbatim>\<open>uuid.New().String()\<close> and \<open>clock\<close> is \<^verbatim>\<open>time.Now()\<close>.
  The program runs one call at a time here; row locks and concurrent callers are not modelled,
  and a stored balance is the value written (the column's \<^verbatim>\<open>DECIMAL(15,2)\<close> coercion is
  not modelled).
\<close>

record 'f world =
  accounts :: "string \<rightharpoonup> 'f Account"
  transactions :: "'f Transaction list"
  queue :: "'f TransactionMessage list"
  pg :: "string option list"
  mongo :: "string option list"
  amqp :: "string option list"
  uuids :: "string list"
  clock :: nat

definition outcome :: "string option list \<Rightarrow> string option" where
  "outcome script = (case script of [] \<Rightarrow> None | r # _ \<Rightarrow> r)"

definition pg_next :: "'f world \<Rightarrow> 'f world" where
  "pg_next w = w\<lparr>pg := tl (pg w)\<rparr>"

definition mongo_next :: "'f world \<Rightarrow> 'f world" where
  "mongo_next w = w\<lparr>mongo := tl (mongo w)\<rparr>"

definition amqp_next :: "'f world \<Rightarrow> 'f world" where
  "amqp_next w = w\<lparr>amqp := tl (amqp w)\<rparr>"

text \<open>\<^verbatim>\<open>models.NewTransactionID\<close>: \<^verbatim>\<open>"txn_" + uuid.New().String()\<close>.\<close>

definition NewTransactionID :: "'f world \<Rightarrow> string \<times> 'f world" where
  "NewTransactionID w =
     (''txn_'' @ (case uuids w of [] \<Rightarrow> [] | u # _ \<Rightarrow> u), w\<lparr>uuids := tl (uuids w)\<rparr>)"

section \<open>storage: PostgresAccountStorage\<close>

text \<open>
  \<^verbatim>\<open>GetAccountByID\<close>: one query; \<^verbatim>\<open>sql.ErrNoRows\<close> is the absence of the row.
\<close>

definition PostgresAccountStorage_GetAccountByID ::
  "'f world \<Rightarrow> string \<Rightarrow> (error + 'f Account) \<times> 'f world" where
  "PostgresAccountStorage_GetAccountByID w accountID =
     (case outcome (pg w) of
        Some e \<Rightarrow> (Inl (Wrap ''failed to get account: '' (New e)), pg_next w)
      | None \<Rightarrow>
          (case accounts w accountID of
             None \<Rightarrow> (Inl (New ''account not found''), pg_next w)
           | Some account \<Rightarrow> (Inr account, pg_next w)))"

text \<open>
  \<^verbatim>\<open>AtomicBalanceUpdate\<close>: four driver calls (\<^verbatim>\<open>BeginTx\<close>, the \<^verbatim>\<open>SELECT ... FOR UPDATE\<close>,
  the \<^verbatim>\<open>UPDATE\<close>, \<^verbatim>\<open>Commit\<close>). Every return before the commit leaves the table as it
  was (the deferred \<^verbatim>\<open>tx.Rollback()\<close>); the table changes only when the commit goes through.
  The result is \<open>Inl err\<close> or \<open>Inr (previousBalance, newBalance)\<close>.
\<close>

definition AtomicBalanceUpdate ::
  "('f \<Rightarrow> string) \<Rightarrow> ('f::{plus,minus,ord,zero}) world \<Rightarrow> string \<Rightarrow> string \<Rightarrow> 'f
     \<Rightarrow> (error + 'f \<times> 'f) \<times> 'f world" where
  "AtomicBalanceUpdate fmt2f w accountID transactionType amount =
     (case outcome (pg w) of
        Some e \<Rightarrow> (Inl (Wrap ''failed to begin transaction: '' (New e)), pg_next w)
      | None \<Rightarrow>
     let w1 = pg_next w in
     (case outcome (pg w1) of
        Some e \<Rightarrow> (Inl (Wrap ''failed to lock account: '' (New e)), pg_next w1)
      | None \<Rightarrow>
     let w2 = pg_next w1 in
     (case accounts w2 accountID of
        None \<Rightarrow> (Inl (New ''account not found''), w2)
      | Some row \<Rightarrow>
     let previousBalance = acc_Balance row in
     (case (if transactionType = ''deposit'' then Inr (previousBalance + amount)
            else if transactionType = ''withdraw'' then
              (if previousBalance < amount
               then Inl (New (''insufficient funds: current balance '' @ fmt2f previousBalance
                              @ '', requested '' @ fmt2f amount))
               else Inr (previousBalance - amount))
            else Inl (New (''invalid transaction type: '' @ transactionType))) of
        Inl err \<Rightarrow> (Inl err, w2)
      | Inr newBalance \<Rightarrow>
     (case outcome (pg w2) of
        Some e \<Rightarrow> (Inl (Wrap ''failed to update balance: '' (New e)), pg_next w2)
      | None \<Rightarrow>
     let w3 = pg_next w2 in
     (case outcome (pg w3) of
        Some e \<Rightarrow> (Inl (Wrap ''failed to commit transaction: '' (New e)), pg_next w3)
      | None \<Rightarrow>
          (Inr (previousBalance, newBalance),
           (pg_next w3)\<lparr>accounts := (accounts w3)(accountID \<mapsto>
              row\<lparr>acc_Balance := newBalance, acc_UpdatedAt := clock w3\<rparr>)\<rparr>)))))))"

section \<open>storage: MongoTransactionStorage\<close>

text \<open>
  \<^verbatim>\<open>UpdateOne\<close> changes the first document that matches the filter, and \<^verbatim>\<open>FindOne\<close>
  returns it; \<^verbatim>\<open>MatchedCount == 0\<close> and \<^verbatim>\<open>mongo.ErrNoDocuments\<close> are the absence of
  a match.
\<close>

fun UpdateOne :: "('a \<Rightarrow> bool) \<Rightarrow> ('a \<Rightarrow> 'a) \<Rightarrow> 'a list \<Rightarrow> 'a list" where
  "UpdateOne matches change [] = []"
| "UpdateOne matches change (d # ds) =
     (if matches d then change d # ds else d # UpdateOne matches change ds)"

definition CreateTransaction :: "'f world \<Rightarrow> 'f Transaction \<Rightarrow> error option \<times> 'f world" where
  "CreateTransaction w transaction =
     (case outcome (mongo w) of
        Some e \<Rightarrow> (Some (Wrap ''failed to insert transaction: '' (New e)), mongo_next w)
      | None \<Rightarrow> (None, (mongo_next w)\<lparr>transactions := transactions w @ [transaction]\<rparr>))"

definition UpdateTransaction :: "'f world \<Rightarrow> 'f Transaction \<Rightarrow> error option \<times> 'f world" where
  "UpdateTransaction w transaction =
     (let matches = (\<lambda>d. txn_TransactionID d = txn_TransactionID transaction) in
      case outcome (mongo w) of
        Some e \<Rightarrow> (Some (Wrap ''failed to update transaction: '' (New e)), mongo_next w)
      | None \<Rightarrow>
          (case find matches (transactions w) of
             None \<Rightarrow> (Some (New ''transaction not found for update''), mongo_next w)
           | Some _ \<Rightarrow>
               (None, (mongo_next w)\<lparr>transactions :=
                  UpdateOne matches
                    (\<lambda>d. d\<lparr>txn_PreviousBalance := txn_PreviousBalance transaction,
                            txn_NewBalance := txn_NewBalance transaction,
                            txn_Status := txn_Status transaction,
                            txn_ErrorMessage := txn_ErrorMessage transaction\<rparr>)
                    (transactions w)\<rparr>)))"

definition MongoTransactionStorage_GetTransactionByID ::
  "'f world \<Rightarrow> string \<Rightarrow> (error + 'f Transaction) \<times> 'f world" where
  "MongoTransactionStorage_GetTransactionByID w transactionID =
     (case outcome (mongo w) of
        Some e \<Rightarrow> (Inl (Wrap ''failed to find transaction: '' (New e)), mongo_next w)
      | None \<Rightarrow>
          (case find (\<lambda>d. txn_TransactionID d = transactionID) (transactions w) of
             None \<Rightarrow> (Inl (New ''transaction not found''), mongo_next w)
           | Some transaction \<Rightarrow> (Inr transaction, mongo_next w)))"

definition MongoTransactionStorage_UpdateTransactionStatusWithError ::
  "'f world \<Rightarrow> string \<Rightarrow> string \<Rightarrow> string \<Rightarrow> error option \<times> 'f world" where
  "MongoTransactionStorage_UpdateTransactionStatusWithError w transactionID status errorMessage =
     (let matches = (\<lambda>d. txn_TransactionID d = transactionID) in
      case outcome (mongo w) of
        Some e \<Rightarrow>
          (Some (Wrap ''failed to update transaction status with error: '' (New e)), mongo_next w)
      | None \<Rightarrow>
          (case find matches (transactions w) of
             None \<Rightarrow>
               (Some (New ''transaction not found for status update with error''), mongo_next w)
           | Some _ \<Rightarrow>
               (None, (mongo_next w)\<lparr>transactions :=
                  UpdateOne matches
                    (\<lambda>d. d\<lparr>txn_Status := status, txn_ErrorMessage := errorMessage\<rparr>)
                    (transactions w)\<rparr>)))"

section \<open>queue: RabbitMQ\<close>

text \<open>
  \<^verbatim>\<open>PublishTransaction\<close>: the message is marshalled and published; the error of the
  channel is rendered into the new error's text with \<^verbatim>\<open>%v\<close>, not wrapped. (Marshalling a
  \<^verbatim>\<open>TransactionMessage\<close> fails only for an amount that is NaN or infinite.)
\<close>

definition PublishTransaction ::
  "'f world \<Rightarrow> 'f TransactionMessage \<Rightarrow> error option \<times> 'f world" where
  "PublishTransaction w msg =
     (case outcome (amqp w) of
        Some e \<Rightarrow> (Some (New (''failed to publish message: '' @ e)), amqp_next w)
      | None \<Rightarrow> (None, (amqp_next w)\<lparr>queue := queue w @ [msg]\<rparr>))"

section \<open>services: TransactionService\<close>

definition TransactionService_GetAccountByID ::
  "'f world \<Rightarrow> string \<Rightarrow> (error + 'f Account) \<times> 'f world" where
  "TransactionService_GetAccountByID w accountID =
     (case PostgresAccountStorage_GetAccountByID w accountID of
        (Inl err, w') \<Rightarrow> (Inl err, w')
      | (Inr account, w') \<Rightarrow> (Inr account, w'))"

definition CreatePendingTransaction ::
  "'f world \<Rightarrow> 'f Transaction \<Rightarrow> error option \<times> 'f world" where
  "CreatePendingTransaction w transaction =
     (case CreateTransaction w transaction of
        (Some err, w') \<Rightarrow> (Some err, w')
      | (None, w') \<Rightarrow> (None, w'))"

definition UpdateTransactionStatusWithError ::
  "'f world \<Rightarrow> string \<Rightarrow> string \<Rightarrow> string \<Rightarrow> error option \<times> 'f world" where
  "UpdateTransactionStatusWithError w transactionID status errorMessage =
     (case MongoTransactionStorage_UpdateTransactionStatusWithError w transactionID status
             errorMessage of
        (Some err, w') \<Rightarrow> (Some err, w')
      | (None, w') \<Rightarrow> (None, w'))"

definition GetTransactionByID ::
  "'f world \<Rightarrow> string \<Rightarrow> (error + 'f Transaction) \<times> 'f world" where
  "GetTransactionByID w transactionID =
     (if transactionID = '''' then (Inl (New ''transaction ID is required''), w)
      else
        (case MongoTransactionStorage_GetTransactionByID w transactionID of
           (Inl err, w') \<Rightarrow> (Inl (Wrap ''failed to get transaction: '' err), w')
         | (Inr transaction, w') \<Rightarrow> (Inr transaction, w')))"

definition validateTransactionRequest ::
  "('f::{plus,minus,ord,zero}) TransactionRequest \<Rightarrow> error option" where
  "validateTransactionRequest req =
     (if req_Type req \<noteq> ''deposit'' \<and> req_Type req \<noteq> ''withdraw''
      then Some (New (''transaction type must be either 'deposit' or 'withdraw'' @ [CHR 0x27]))
      else if req_Amount req \<le> 0 then Some (New ''amount must be greater than 0'')
      else None)"

text \<open>
  \<^verbatim>\<open>ProcessTransaction\<close>, the synchronous path: validate, update the balance, write the
  completed record; when the write fails, call the balance update again with the reversed
  type and the same amount, drop what it returns, and return the write's error.
\<close>

definition ProcessTransaction ::
  "('f \<Rightarrow> string) \<Rightarrow> ('f::{plus,minus,ord,zero}) world \<Rightarrow> string \<Rightarrow> 'f TransactionRequest
     \<Rightarrow> (error + 'f Transaction) \<times> 'f world" where
  "ProcessTransaction fmt2f w accountID req =
     (case validateTransactionRequest req of
        Some err \<Rightarrow> (Inl err, w)
      | None \<Rightarrow>
     (case AtomicBalanceUpdate fmt2f w accountID (req_Type req) (req_Amount req) of
        (Inl err, w1) \<Rightarrow> (Inl (Wrap ''failed to process transaction: '' err), w1)
      | (Inr (previousBalance, newBalance), w1) \<Rightarrow>
     (case NewTransactionID w1 of (id1, w2) \<Rightarrow>
     (case NewTransactionID w2 of (id2, w3) \<Rightarrow>
     let transaction =
           \<lparr>txn_ID = id1,
            txn_TransactionID = id2,
            txn_AccountID = accountID,
            txn_Type = req_Type req,
            txn_Amount = req_Amount req,
            txn_PreviousBalance = previousBalance,
            txn_NewBalance = newBalance,
            txn_Description = req_Description req,
            txn_Timestamp = clock w3,
            txn_Status = ''completed'',
            txn_ErrorMessage = ''''\<rparr> in
     (case CreateTransaction w3 transaction of
        (Some err, w4) \<Rightarrow>
          let rollbackType = (if req_Type req = ''withdraw'' then ''deposit'' else ''withdraw'');
              w5 = snd (AtomicBalanceUpdate fmt2f w4 accountID rollbackType (req_Amount req))
          in (Inl (Wrap ''failed to save transaction: '' err), w5)
      | (None, w4) \<Rightarrow> (Inr transaction, w4))))))"

text \<open>
  \<^verbatim>\<open>ProcessTransactionAsync\<close>, the worker's path for a pending record. The balance update
  takes its type and amount from the request; the completed record keeps the type and the
  amount of the stored record.
\<close>

definition ProcessTransactionAsync ::
  "('f \<Rightarrow> string) \<Rightarrow> ('f::{plus,minus,ord,zero}) world \<Rightarrow> string \<Rightarrow> 'f TransactionRequest
     \<Rightarrow> (error + 'f Transaction) \<times> 'f world" where
  "ProcessTransactionAsync fmt2f w transactionID req =
     (case GetTransactionByID w transactionID of
        (Inl err, w1) \<Rightarrow> (Inl (Wrap ''pending transaction not found: '' err), w1)
      | (Inr transaction, w1) \<Rightarrow>
     if txn_Status transaction \<noteq> ''pending''
     then (Inl (New (''transaction is not in pending state: '' @ txn_Status transaction)), w1)
     else
     (case validateTransactionRequest req of
        Some err \<Rightarrow>
          (Inl err, snd (UpdateTransactionStatusWithError w1 transactionID ''failed'' (Error err)))
      | None \<Rightarrow>
     (case AtomicBalanceUpdate fmt2f w1 (txn_AccountID transaction) (req_Type req)
             (req_Amount req) of
        (Inl err, w2) \<Rightarrow>
          (Inl (Wrap ''failed to update balance: '' err),
           snd (UpdateTransactionStatusWithError w2 transactionID ''failed'' (Error err)))
      | (Inr (previousBalance, newBalance), w2) \<Rightarrow>
     let updatedTransaction =
           \<lparr>txn_ID = txn_ID transaction,
            txn_TransactionID = txn_TransactionID transaction,
            txn_AccountID = txn_AccountID transaction,
            txn_Type = txn_Type transaction,
            txn_Amount = txn_Amount transaction,
            txn_PreviousBalance = previousBalance,
            txn_NewBalance = newBalance,
            txn_Description = txn_Description transaction,
            txn_Timestamp = txn_Timestamp transaction,
            txn_Status = ''completed'',
            txn_ErrorMessage = ''''\<rparr> in
     (case UpdateTransaction w2 updatedTransaction of
        (Some err, w3) \<Rightarrow>
          let rollbackType = (if req_Type req = ''withdraw'' then ''deposit'' else ''withdraw'');
              w4 = snd (AtomicBalanceUpdate fmt2f w3 (txn_AccountID transaction) rollbackType
                          (req_Amount req));
              w5 = snd (UpdateTransactionStatusWithError w4 transactionID ''failed''
                          ''Failed to update transaction record'')
          in (Inl (Wrap ''failed to update transaction: '' err), w5)
      | (None, w3) \<Rightarrow> (Inr updatedTransaction, w3)))))"

section \<open>Package strings\<close>

text \<open>
  \<^verbatim>\<open>strings.ToLower\<close> on the ASCII letters (bytes outside \<open>A\<close>..\<open>Z\<close> are kept; the
  Unicode case mapping of non-ASCII runes is not modelled), \<^verbatim>\<open>strings.HasPrefix\<close> and
  \<^verbatim>\<open>strings.Contains\<close>.
\<close>

definition ToLower :: "string \<Rightarrow> string" where
  "ToLower s =
     map (\<lambda>c. if 65 \<le> (of_char c :: nat) \<and> (of_char c :: nat) \<le> 90
              then char_of ((of_char c :: nat) + 32) else c) s"

fun HasPrefix :: "string \<Rightarrow> string \<Rightarrow> bool" where
  "HasPrefix s [] = True"
| "HasPrefix [] (p # ps) = False"
| "HasPrefix (c # s) (p # ps) = (c = p \<and> HasPrefix s ps)"

fun Contains :: "string \<Rightarrow> string \<Rightarrow> bool" where
  "Contains [] substr = (substr = [])"
| "Contains (c # s) substr = (HasPrefix (c # s) substr \<or> Contains s substr)"

section \<open>handlers: TransactionHandler\<close>

text \<open>
  A handler answers with \<^verbatim>\<open>c.JSON(code, gin.H{...})\<close>: a status code and the fields of
  the body.
\<close>

datatype 'f jvalue = JString string | JTransaction "'f Transaction"

type_synonym 'f response = "nat \<times> (string \<times> 'f jvalue) list"

definition processTransactionSync ::
  "('f \<Rightarrow> string) \<Rightarrow> ('f::{plus,minus,ord,zero}) world \<Rightarrow> string \<Rightarrow> 'f TransactionRequest
     \<Rightarrow> 'f response \<times> 'f world" where
  "processTransactionSync fmt2f w accountID req =
     (case ProcessTransaction fmt2f w accountID req of
        (Inl err, w') \<Rightarrow>
          (if Contains (Error err) ''insufficient funds''
           then ((400, [(''error'', JString ''Insufficient funds''),
                        (''details'', JString (Error err))]), w')
           else if Contains (Error err) ''account not found''
           then ((404, [(''error'', JString ''Account not found''),
                        (''details'', JString (Error err))]), w')
           else ((500, [(''error'', JString ''Transaction processing failed''),
                        (''details'', JString (Error err))]), w'))
      | (Inr transaction, w') \<Rightarrow>
          ((200, [(''message'', JString ''Transaction processed successfully''),
                  (''transaction'', JTransaction transaction),
                  (''processing_mode'', JString ''sync'')]), w'))"

text \<open>
  \<^verbatim>\<open>processTransactionAsync\<close>, the asynchronous submission: read the account, refuse a
  withdrawal above its balance, store the pending record, publish the message; when the
  publish fails, mark the record failed and go on with \<open>processTransactionSync\<close>.
\<close>

definition processTransactionAsync ::
  "('f \<Rightarrow> string) \<Rightarrow> ('f::{plus,minus,ord,zero}) world \<Rightarrow> string \<Rightarrow> 'f TransactionRequest
     \<Rightarrow> 'f response \<times> 'f world" where
  "processTransactionAsync fmt2f w accountID req =
     (case TransactionService_GetAccountByID w accountID of
        (Inl err, w1) \<Rightarrow> ((404, [(''error'', JString ''Account not found'')]), w1)
      | (Inr account, w1) \<Rightarrow>
     if req_Type req = ''withdraw'' \<and> acc_Balance account < req_Amount req
     then ((400, [(''error'', JString ''Insufficient funds''),
                  (''details'', JString ''Current balance is insufficient for this withdrawal'')]),
           w1)
     else
     (case NewTransactionID w1 of (transactionID, w2) \<Rightarrow>
     let pendingTransaction =
           \<lparr>txn_ID = transactionID,
            txn_TransactionID = transactionID,
            txn_AccountID = accountID,
            txn_Type = req_Type req,
            txn_Amount = req_Amount req,
            txn_PreviousBalance = acc_Balance account,
            txn_NewBalance = 0,
            txn_Description = req_Description req,
            txn_Timestamp = clock w2,
            txn_Status = ''pending'',
            txn_ErrorMessage = ''''\<rparr> in
     (case CreatePendingTransaction w2 pendingTransaction of
        (Some err, w3) \<Rightarrow>
          ((500, [(''error'', JString ''Failed to create transaction record'')]), w3)
      | (None, w3) \<Rightarrow>
     let message =
           \<lparr>msg_ID = transactionID,
            msg_AccountID = accountID,
            msg_Type = req_Type req,
            msg_Amount = req_Amount req,
            msg_Reference = req_Description req,
            msg_CreatedAt = clock w3\<rparr> in
     (case PublishTransaction w3 message of
        (Some err, w4) \<Rightarrow>
          let w5 = snd (UpdateTransactionStatusWithError w4 transactionID ''failed''
                          ''Queue system unavailable'')
          in processTransactionSync fmt2f w5 accountID req
      | (None, w4) \<Rightarrow>
          ((202, [(''message'', JString ''Transaction queued for processing''),
                  (''transaction_id'', JString transactionID),
                  (''status'', JString ''pending''),
                  (''account_id'', JString accountID),
                  (''processing_mode'', JString ''async'')]), w4)))))"

section \<open>worker: TransactionWorker\<close>

text \<open>
  What the worker tells the broker about a delivery: \<^verbatim>\<open>Ack(false)\<close>, or
  \<^verbatim>\<open>Nack(false, requeue)\<close>.
\<close>

datatype delivery = Ack | Nack bool

definition businessErrors :: "string list" where
  "businessErrors =
     [''insufficient funds'',
      ''invalid transaction type'',
      ''account not found'',
      ''amount must be greater than 0'',
      ''transaction is not in pending state'']"

definition isBusinessError :: "error \<Rightarrow> bool" where
  "isBusinessError err =
     (let errorMsg = ToLower (Error err)
      in list_ex (\<lambda>busErr. Contains errorMsg busErr) businessErrors)"

text \<open>
  \<^verbatim>\<open>processMessage\<close>: the body of the delivery arrives as \<^verbatim>\<open>json.Unmarshal\<close> decodes
  it, \<open>Inl\<close> its error or \<open>Inr\<close> the message.
\<close>

definition processMessage ::
  "('f \<Rightarrow> string) \<Rightarrow> ('f::{plus,minus,ord,zero}) world \<Rightarrow> error + 'f TransactionMessage
     \<Rightarrow> delivery \<times> 'f world" where
  "processMessage fmt2f w body =
     (case body of
        Inl err \<Rightarrow> (Nack False, w)
      | Inr msg \<Rightarrow>
     let req = \<lparr>req_Type = msg_Type msg, req_Amount = msg_Amount msg,
                req_Description = msg_Reference msg\<rparr> in
     (case ProcessTransactionAsync fmt2f w (msg_ID msg) req of
        (Inl processErr, w') \<Rightarrow>
          (if isBusinessError processErr then (Ack, w') else (Nack True, w'))
      | (Inr processedTransaction, w') \<Rightarrow> (Ack, w')))"

section \<open>Vocabulary of the properties, and the worlds of the examples\<close>

text \<open>The first \<open>n\<close> coming calls of a driver go through.\<close>

definition goes_through :: "nat \<Rightarrow> string option list \<Rightarrow> bool" where
  "goes_through n script = list_all (\<lambda>r. r = None) (take n script)"

definition balance_of :: "'f world \<Rightarrow> string \<Rightarrow> 'f option" where
  "balance_of w accountID = map_option acc_Balance (accounts w accountID)"

text \<open>The balances of a completed record agree with its type and amount.\<close>

definition balances_match :: "('f::{plus,minus,ord,zero}) Transaction \<Rightarrow> bool" where
  "balances_match t =
     (txn_Status t = ''completed'' \<longrightarrow>
        (txn_Type t = ''deposit'' \<longrightarrow>
           txn_NewBalance t = txn_PreviousBalance t + txn_Amount t)
      \<and> (txn_Type t = ''withdraw'' \<longrightarrow>
           txn_NewBalance t = txn_PreviousBalance t - txn_Amount t))"

text \<open>
  The examples run on exact amounts (\<open>real\<close>), printed with two decimals: sign, integer
  part, point, hundredths rounded to the nearest.
\<close>

fun digits :: "nat \<Rightarrow> string" where
  "digits n =
     (if n < 10 then [''0123456789'' ! n]
      else digits (n div 10) @ [''0123456789'' ! (n mod 10)])"

definition fmt_2f :: "real \<Rightarrow> string" where
  "fmt_2f x =
     (let c = nat \<lfloor>\<bar>x\<bar> * 100 + 1 / 2\<rfloor>
      in (if x < 0 then ''-'' else []) @ digits (c div 100) @ ''.''
         @ [''0123456789'' ! (c div 10 mod 10), ''0123456789'' ! (c mod 10)])"

text \<open>One account holding 500.00, empty ledger and queue, every driver call going through.\<close>

definition account_500 :: "real Account" where
  "account_500 =
     \<lparr>acc_ID = ''acc_12345'', acc_OwnerName = ''Ada'', acc_Balance = 500,
      acc_CreatedAt = 0, acc_UpdatedAt = 0\<rparr>"

definition world_500 :: "real world" where
  "world_500 =
     \<lparr>accounts = [''acc_12345'' \<mapsto> account_500], transactions = [], queue = [],
      pg = [], mongo = [], amqp = [], uuids = [''0001'', ''0002'', ''0003''], clock = 7\<rparr>"

text \<open>The same world with the ledger store down for one call; with the ledger store down
  and the database failing at its fifth call; with the queue down for one call.\<close>

definition world_ledger_down :: "real world" where
  "world_ledger_down = world_500\<lparr>mongo := [Some ''database error'']\<rparr>"

definition world_both_down :: "real world" where
  "world_both_down =
     world_500\<lparr>mongo := [Some ''database error''],
               pg := [None, None, None, None, Some ''connection lost'']\<rparr>"

definition world_queue_down :: "real world" where
  "world_queue_down = world_500\<lparr>amqp := [Some ''channel closed'']\<rparr>"

text \<open>Requests, and a message whose type is not one of the two.\<close>

definition deposit_250 :: "real TransactionRequest" where
  "deposit_250 = \<lparr>req_Type = ''deposit'', req_Amount = 250, req_Description = ''salary''\<rparr>"

definition deposit_100 :: "real TransactionRequest" where
  "deposit_100 = \<lparr>req_Type = ''deposit'', req_Amount = 100, req_Description = ''gift''\<rparr>"

definition withdraw_30 :: "real TransactionRequest" where
  "withdraw_30 = \<lparr>req_Type = ''withdraw'', req_Amount = 30, req_Description = ''gift''\<rparr>"

definition withdraw_600 :: "real TransactionRequest" where
  "withdraw_600 = \<lparr>req_Type = ''withdraw'', req_Amount = 600, req_Description = ''rent''\<rparr>"

definition transfer_100 :: "real TransactionRequest" where
  "transfer_100 = \<lparr>req_Type = ''transfer'', req_Amount = 100, req_Description = ''gift''\<rparr>"

definition message_transfer :: "real TransactionMessage" where
  "message_transfer =
     \<lparr>msg_ID = ''txn_0007'', msg_AccountID = ''acc_12345'', msg_Type = ''transfer'',
      msg_Amount = 100, msg_Reference = ''gift'', msg_CreatedAt = 6\<rparr>"

text \<open>Ledger records: a pending deposit of 100.00, the same record once completed, and
  the record the synchronous path writes for \<open>deposit_250\<close> in \<open>world_500\<close>.\<close>

definition pending_100 :: "real Transaction" where
  "pending_100 =
     \<lparr>txn_ID = ''txn_0007'', txn_TransactionID = ''txn_0007'', txn_AccountID = ''acc_12345'',
      txn_Type = ''deposit'', txn_Amount = 100, txn_PreviousBalance = 500, txn_NewBalance = 0,
      txn_Description = ''gift'', txn_Timestamp = 5, txn_Status = ''pending'',
      txn_ErrorMessage = ''''\<rparr>"

definition done_100 :: "real Transaction" where
  "done_100 = pending_100\<lparr>txn_PreviousBalance := 400, txn_NewBalance := 500,
                           txn_Status := ''completed''\<rparr>"

definition completed_250 :: "real Transaction" where
  "completed_250 =
     \<lparr>txn_ID = ''txn_0001'', txn_TransactionID = ''txn_0002'',
      txn_AccountID = ''acc_12345'', txn_Type = ''deposit'', txn_Amount = 250,
      txn_PreviousBalance = 500, txn_NewBalance = 750, txn_Description = ''salary'',
      txn_Timestamp = 7, txn_Status = ''completed'', txn_ErrorMessage = ''''\<rparr>"

definition world_pending :: "real world" where
  "world_pending = world_500\<lparr>transactions := [pending_100]\<rparr>"

definition world_done :: "real world" where
  "world_done = world_500\<lparr>transactions := [done_100]\<rparr>"

section \<open>Basic facts\<close>

declare digits.simps [simp del]

lemmas example_defs =
  world_500_def account_500_def world_ledger_down_def world_both_down_def world_pending_def
  world_done_def world_queue_down_def pending_100_def done_100_def completed_250_def
  deposit_250_def deposit_100_def withdraw_30_def withdraw_600_def transfer_100_def
  message_transfer_def

lemmas run_defs =
  validateTransactionRequest_def ProcessTransaction_def ProcessTransactionAsync_def
  AtomicBalanceUpdate_def CreateTransaction_def UpdateTransaction_def GetTransactionByID_def
  MongoTransactionStorage_GetTransactionByID_def UpdateTransactionStatusWithError_def
  MongoTransactionStorage_UpdateTransactionStatusWithError_def NewTransactionID_def
  TransactionService_GetAccountByID_def PostgresAccountStorage_GetAccountByID_def
  CreatePendingTransaction_def PublishTransaction_def processTransactionAsync_def
  outcome_def balance_of_def Let_def pg_next_def mongo_next_def amqp_next_def

lemma fmt_2f_examples:
  "fmt_2f 500 = ''500.00''" "fmt_2f 600 = ''600.00''"
  by (simp_all add: fmt_2f_def digits.simps)

subsection \<open>Driver scripts\<close>

lemma goes_through_Suc:
  "goes_through (Suc n) s \<Longrightarrow> outcome s = None \<and> goes_through n (tl s)"
  by (cases s) (auto simp: goes_through_def outcome_def)

lemma goes_through_2:
  assumes "goes_through 2 s"
  shows "outcome s = None" "outcome (tl s) = None"
proof -
  have "goes_through (Suc (Suc 0)) s"
    using assms by (simp add: eval_nat_numeral)
  then show "outcome s = None" "outcome (tl s) = None"
    by (blast dest: goes_through_Suc)+
qed

lemma goes_through_4:
  assumes "goes_through 4 s"
  shows "outcome s = None" "outcome (tl s) = None" "outcome (tl (tl s)) = None"
    "outcome (tl (tl (tl s))) = None"
proof -
  have "goes_through (Suc (Suc (Suc (Suc 0)))) s"
    using assms by (simp add: eval_nat_numeral)
  then show "outcome s = None" "outcome (tl s) = None" "outcome (tl (tl s)) = None"
    "outcome (tl (tl (tl s))) = None"
    by (blast dest: goes_through_Suc)+
qed

lemma pg_next_simps [simp]:
  "pg (pg_next w) = tl (pg w)" "accounts (pg_next w) = accounts w"
  "transactions (pg_next w) = transactions w" "queue (pg_next w) = queue w"
  "mongo (pg_next w) = mongo w" "amqp (pg_next w) = amqp w" "uuids (pg_next w) = uuids w"
  "clock (pg_next w) = clock w"
  by (simp_all add: pg_next_def)

lemma mongo_next_simps [simp]:
  "mongo (mongo_next w) = tl (mongo w)" "accounts (mongo_next w) = accounts w"
  "transactions (mongo_next w) = transactions w" "queue (mongo_next w) = queue w"
  "pg (mongo_next w) = pg w" "amqp (mongo_next w) = amqp w" "uuids (mongo_next w) = uuids w"
  "clock (mongo_next w) = clock w"
  by (simp_all add: mongo_next_def)

lemma amqp_next_simps [simp]:
  "amqp (amqp_next w) = tl (amqp w)" "accounts (amqp_next w) = accounts w"
  "transactions (amqp_next w) = transactions w" "queue (amqp_next w) = queue w"
  "pg (amqp_next w) = pg w" "mongo (amqp_next w) = mongo w" "uuids (amqp_next w) = uuids w"
  "clock (amqp_next w) = clock w"
  by (simp_all add: amqp_next_def)

lemma NewTransactionID_frame [simp]:
  "accounts (snd (NewTransactionID w)) = accounts w"
  "transactions (snd (NewTransactionID w)) = transactions w"
  "queue (snd (NewTransactionID w)) = queue w"
  "pg (snd (NewTransactionID w)) = pg w"
  "mongo (snd (NewTransactionID w)) = mongo w"
  "amqp (snd (NewTransactionID w)) = amqp w"
  "clock (snd (NewTransactionID w)) = clock w"
  by (simp_all add: NewTransactionID_def)

subsection \<open>What the balance store changes\<close>

lemma AtomicBalanceUpdate_frame:
  "transactions (snd (AtomicBalanceUpdate fmt2f w accountID kind amount)) = transactions w"
  "queue (snd (AtomicBalanceUpdate fmt2f w accountID kind amount)) = queue w"
  "mongo (snd (AtomicBalanceUpdate fmt2f w accountID kind amount)) = mongo w"
  "amqp (snd (AtomicBalanceUpdate fmt2f w accountID kind amount)) = amqp w"
  "uuids (snd (AtomicBalanceUpdate fmt2f w accountID kind amount)) = uuids w"
  "clock (snd (AtomicBalanceUpdate fmt2f w accountID kind amount)) = clock w"
  by (simp_all add: AtomicBalanceUpdate_def Let_def split: option.splits sum.splits)

lemma AtomicBalanceUpdate_Inl:
  "fst (AtomicBalanceUpdate fmt2f w accountID kind amount) = Inl e \<Longrightarrow>
   accounts (snd (AtomicBalanceUpdate fmt2f w accountID kind amount)) = accounts w"
  by (simp add: AtomicBalanceUpdate_def Let_def split: option.splits sum.splits if_splits)

lemma AtomicBalanceUpdate_Inr:
  assumes "AtomicBalanceUpdate fmt2f w accountID kind amount = (Inr (b, b'), w1)"
  shows "\<exists>row. accounts w accountID = Some row \<and> acc_Balance row = b
           \<and> ((kind = ''deposit'' \<and> b' = b + amount)
              \<or> (kind = ''withdraw'' \<and> \<not> b < amount \<and> b' = b - amount))
           \<and> accounts w1 = (accounts w)(accountID \<mapsto>
                row\<lparr>acc_Balance := b', acc_UpdatedAt := clock w\<rparr>)
           \<and> pg w1 = tl (tl (tl (tl (pg w))))"
  using assms
  by (auto simp: AtomicBalanceUpdate_def Let_def split: option.splits sum.splits if_splits)


subsection \<open>What the ledger store changes\<close>

lemma UpdateOne_set: "find P ds = Some d \<Longrightarrow> set (UpdateOne P f ds) \<subseteq> insert (f d) (set ds)"
  by (induction ds) (auto split: if_splits)

lemma find_holds: "find P ds = Some d \<Longrightarrow> P d"
  by (induction ds) (auto split: if_splits)




lemma status_update_records:
  assumes "d \<in> set (transactions (snd (UpdateTransactionStatusWithError w transactionID status m)))"
  shows "d \<in> set (transactions w) \<or> txn_Status d = status"
proof (cases "find (\<lambda>d. txn_TransactionID d = transactionID) (transactions w)")
  case None
  then show ?thesis
    using assms
    by (simp add: UpdateTransactionStatusWithError_def
        MongoTransactionStorage_UpdateTransactionStatusWithError_def Let_def
        split: option.splits)
next
  case (Some t)
  from UpdateOne_set [OF Some, of "\<lambda>d. d\<lparr>txn_Status := status, txn_ErrorMessage := m\<rparr>"]
  show ?thesis
    using assms Some
    by (auto simp: UpdateTransactionStatusWithError_def
        MongoTransactionStorage_UpdateTransactionStatusWithError_def Let_def
        split: option.splits)
qed

lemma UpdateTransaction_records:
  assumes "d \<in> set (transactions (snd (UpdateTransaction w u)))"
  shows "d \<in> set (transactions w)
       \<or> (\<exists>t. find (\<lambda>d. txn_TransactionID d = txn_TransactionID u) (transactions w) = Some t
              \<and> d = t\<lparr>txn_PreviousBalance := txn_PreviousBalance u,
                       txn_NewBalance := txn_NewBalance u,
                       txn_Status := txn_Status u,
                       txn_ErrorMessage := txn_ErrorMessage u\<rparr>)"
proof (cases "find (\<lambda>d. txn_TransactionID d = txn_TransactionID u) (transactions w)")
  case None
  then show ?thesis
    using assms by (simp add: UpdateTransaction_def Let_def split: option.splits)
next
  case (Some t)
  from UpdateOne_set [OF Some, of "\<lambda>d. d\<lparr>txn_PreviousBalance := txn_PreviousBalance u,
                       txn_NewBalance := txn_NewBalance u,
                       txn_Status := txn_Status u,
                       txn_ErrorMessage := txn_ErrorMessage u\<rparr>"]
  show ?thesis
    using assms Some
    by (auto simp: UpdateTransaction_def Let_def split: option.splits)
qed

lemma GetTransactionByID_frame:
  "accounts (snd (GetTransactionByID w transactionID)) = accounts w"
  "transactions (snd (GetTransactionByID w transactionID)) = transactions w"
  "queue (snd (GetTransactionByID w transactionID)) = queue w"
  "pg (snd (GetTransactionByID w transactionID)) = pg w"
  by (simp_all add: GetTransactionByID_def MongoTransactionStorage_GetTransactionByID_def
      split: option.splits)

lemma GetTransactionByID_Inr:
  "fst (GetTransactionByID w transactionID) = Inr t \<Longrightarrow>
   find (\<lambda>d. txn_TransactionID d = transactionID) (transactions w) = Some t"
  by (simp add: GetTransactionByID_def MongoTransactionStorage_GetTransactionByID_def
      split: option.splits if_splits)

lemma failed_matches: "txn_Status d = ''failed'' \<Longrightarrow> balances_match d"
  by (simp add: balances_match_def)

section \<open>The atomic balance update\<close>

text \<open>
  C1. Where the four driver calls go through, \<open>AtomicBalanceUpdate\<close> on an account of
  balance \<open>b\<close> returns \<open>(b, b + amount)\<close> for a deposit; for a withdrawal it fails with
  the insufficient-funds error when \<open>b < amount\<close> and returns \<open>(b, b - amount)\<close>
  otherwise; it fails with ``account not found'' when there is no such account, and with
  ``invalid transaction type'' for any other type on an account that exists.
\<close>

theorem AtomicBalanceUpdate_contract:
  fixes w :: "('f::{plus,minus,ord,zero}) world"
  assumes "goes_through 4 (pg w)"
  shows "(accounts w accountID = None \<longrightarrow>
            fst (AtomicBalanceUpdate fmt2f w accountID kind amount)
              = Inl (New ''account not found''))
       \<and> (\<forall>row. accounts w accountID = Some row \<longrightarrow>
            (kind = ''deposit'' \<longrightarrow>
               fst (AtomicBalanceUpdate fmt2f w accountID kind amount)
                 = Inr (acc_Balance row, acc_Balance row + amount))
          \<and> (kind = ''withdraw'' \<and> acc_Balance row < amount \<longrightarrow>
               fst (AtomicBalanceUpdate fmt2f w accountID kind amount)
                 = Inl (New (''insufficient funds: current balance '' @ fmt2f (acc_Balance row)
                             @ '', requested '' @ fmt2f amount)))
          \<and> (kind = ''withdraw'' \<and> \<not> acc_Balance row < amount \<longrightarrow>
               fst (AtomicBalanceUpdate fmt2f w accountID kind amount)
                 = Inr (acc_Balance row, acc_Balance row - amount))
          \<and> (kind \<noteq> ''deposit'' \<and> kind \<noteq> ''withdraw'' \<longrightarrow>
               fst (AtomicBalanceUpdate fmt2f w accountID kind amount)
                 = Inl (New (''invalid transaction type: '' @ kind))))"
  using goes_through_4 [OF assms]
  by (simp add: AtomicBalanceUpdate_def Let_def)

theorem AtomicBalanceUpdate_contract_witness:
  "goes_through 4 (pg world_500)
   \<and> fst (AtomicBalanceUpdate fmt_2f world_500 ''acc_12345'' ''deposit'' 250) = Inr (500, 750)
   \<and> fst (AtomicBalanceUpdate fmt_2f world_500 ''acc_12345'' ''withdraw'' 600)
       = Inl (New ''insufficient funds: current balance 500.00, requested 600.00'')
   \<and> fst (AtomicBalanceUpdate fmt_2f world_500 ''acc_12345'' ''withdraw'' 200) = Inr (500, 300)
   \<and> fst (AtomicBalanceUpdate fmt_2f world_500 ''acc_12345'' ''transfer'' 200)
       = Inl (New ''invalid transaction type: transfer'')
   \<and> fst (AtomicBalanceUpdate fmt_2f world_500 ''acc_404'' ''deposit'' 250)
       = Inl (New ''account not found'')"
proof -
  have h: "goes_through 4 (pg world_500)"
    by (simp add: world_500_def goes_through_def)
  have known: "accounts world_500 ''acc_12345'' = Some account_500"
    and unknown: "accounts world_500 ''acc_404'' = None"
    and b: "acc_Balance account_500 = 500"
    by (simp_all add: world_500_def account_500_def)
  show ?thesis
    using h known unknown b fmt_2f_examples
      AtomicBalanceUpdate_contract [OF h, of "''acc_12345''" fmt_2f "''deposit''" 250]
      AtomicBalanceUpdate_contract [OF h, of "''acc_12345''" fmt_2f "''withdraw''" 600]
      AtomicBalanceUpdate_contract [OF h, of "''acc_12345''" fmt_2f "''withdraw''" 200]
      AtomicBalanceUpdate_contract [OF h, of "''acc_12345''" fmt_2f "''transfer''" 200]
      AtomicBalanceUpdate_contract [OF h, of "''acc_404''" fmt_2f "''deposit''" 250]
    by simp
qed

text \<open>
  C2. A withdrawal of more than the balance returns the insufficient-funds error and leaves
  the table of accounts, so the balance, exactly as it was.
\<close>

theorem withdraw_above_balance_changes_nothing:
  fixes w :: "('f::{plus,minus,ord,zero}) world"
  assumes "accounts w accountID = Some row" and "acc_Balance row < amount"
    and "goes_through 2 (pg w)"
  shows "fst (AtomicBalanceUpdate fmt2f w accountID ''withdraw'' amount)
           = Inl (New (''insufficient funds: current balance '' @ fmt2f (acc_Balance row)
                       @ '', requested '' @ fmt2f amount))
       \<and> accounts (snd (AtomicBalanceUpdate fmt2f w accountID ''withdraw'' amount)) = accounts w
       \<and> balance_of (snd (AtomicBalanceUpdate fmt2f w accountID ''withdraw'' amount)) accountID
           = Some (acc_Balance row)"
  using assms(1,2) goes_through_2 [OF assms(3)]
  by (simp add: AtomicBalanceUpdate_def Let_def balance_of_def)

theorem withdraw_above_balance_changes_nothing_witness:
  "accounts world_500 ''acc_12345'' = Some account_500
   \<and> acc_Balance account_500 < 600
   \<and> goes_through 2 (pg world_500)
   \<and> fst (AtomicBalanceUpdate fmt_2f world_500 ''acc_12345'' ''withdraw'' 600)
       = Inl (New ''insufficient funds: current balance 500.00, requested 600.00'')
   \<and> balance_of (snd (AtomicBalanceUpdate fmt_2f world_500 ''acc_12345'' ''withdraw'' 600))
        ''acc_12345'' = Some 500"
proof -
  have known: "accounts world_500 ''acc_12345'' = Some account_500"
    by (simp add: world_500_def)
  have above: "acc_Balance account_500 < 600" and b: "acc_Balance account_500 = 500"
    by (simp_all add: account_500_def)
  have h: "goes_through 2 (pg world_500)"
    by (simp add: world_500_def goes_through_def)
  show ?thesis
    using known above h b fmt_2f_examples
      withdraw_above_balance_changes_nothing [OF known above h, of fmt_2f]
    by simp
qed

section \<open>The synchronous path\<close>





text \<open>
  C7. A request whose type is neither ``deposit'' nor ``withdraw'', or whose amount is not
  greater than 0, makes \<open>ProcessTransaction\<close> fail with the validation error and leave
  the world as it was: no driver call is made, nothing is read or written. (Amounts are
  totally ordered here.)
\<close>

theorem invalid_request_touches_nothing:
  fixes req :: "('f::{plus,minus,zero,linorder}) TransactionRequest"
  assumes "(req_Type req \<noteq> ''deposit'' \<and> req_Type req \<noteq> ''withdraw'') \<or> \<not> 0 < req_Amount req"
  shows "ProcessTransaction fmt2f w accountID req =
           (Inl (New (if req_Type req \<noteq> ''deposit'' \<and> req_Type req \<noteq> ''withdraw''
                      then ''transaction type must be either 'deposit' or 'withdraw'' @ [CHR 0x27]
                      else ''amount must be greater than 0'')), w)"
  using assms
  by (auto simp: ProcessTransaction_def validateTransactionRequest_def)

theorem invalid_request_touches_nothing_witness:
  "ProcessTransaction fmt_2f world_500 ''acc_12345'' transfer_100
     = (Inl (New (''transaction type must be either 'deposit' or 'withdraw'' @ [CHR 0x27])),
        world_500)
   \<and> \<not> (0::real) < - 100
   \<and> ProcessTransaction fmt_2f world_500 ''acc_12345'' (deposit_100\<lparr>req_Amount := - 100\<rparr>)
     = (Inl (New ''amount must be greater than 0''), world_500)"
  using invalid_request_touches_nothing [of transfer_100 fmt_2f world_500 "''acc_12345''"]
    invalid_request_touches_nothing
      [of "deposit_100\<lparr>req_Amount := - 100\<rparr>" fmt_2f world_500 "''acc_12345''"]
  by (simp add: transfer_100_def deposit_100_def)

text \<open>
  C8, as amended. In \<open>ProcessTransaction\<close>, when the atomic balance update fails, the
  returned error wraps the balance store's error under the prefix
  ``failed to process transaction: '' (the store's error is what \<open>Unwrap\<close> gives back),
  and no ledger write is attempted: the world returned is the one the balance store left,
  with the ledger and the script of the ledger driver as they were.
\<close>

theorem balance_error_is_wrapped:
  fixes w :: "('f::{plus,minus,ord,zero}) world"
  assumes "validateTransactionRequest req = None"
    and "AtomicBalanceUpdate fmt2f w accountID (req_Type req) (req_Amount req) = (Inl err, w1)"
  shows "ProcessTransaction fmt2f w accountID req
           = (Inl (Wrap ''failed to process transaction: '' err), w1)
       \<and> Unwrap (Wrap ''failed to process transaction: '' err) = Some err
       \<and> transactions w1 = transactions w \<and> mongo w1 = mongo w"
  using assms AtomicBalanceUpdate_frame(1,3) [of fmt2f w accountID "req_Type req" "req_Amount req"]
  by (simp add: ProcessTransaction_def)

theorem balance_error_is_wrapped_witness:
  "validateTransactionRequest withdraw_600 = None
   \<and> AtomicBalanceUpdate fmt_2f world_500 ''acc_12345'' ''withdraw'' 600
       = (Inl (New ''insufficient funds: current balance 500.00, requested 600.00''),
          pg_next (pg_next world_500))
   \<and> ProcessTransaction fmt_2f world_500 ''acc_12345'' withdraw_600
       = (Inl (Wrap ''failed to process transaction: ''
                 (New ''insufficient funds: current balance 500.00, requested 600.00'')),
          pg_next (pg_next world_500))"
proof -
  have v: "validateTransactionRequest withdraw_600 = None"
    by (simp add: validateTransactionRequest_def withdraw_600_def)
  have upd: "AtomicBalanceUpdate fmt_2f world_500 ''acc_12345'' (req_Type withdraw_600)
               (req_Amount withdraw_600)
       = (Inl (New ''insufficient funds: current balance 500.00, requested 600.00''),
          pg_next (pg_next world_500))"
    by (simp add: AtomicBalanceUpdate_def withdraw_600_def world_500_def account_500_def
        outcome_def Let_def fmt_2f_examples)
  show ?thesis
    using v upd balance_error_is_wrapped [OF v upd]
    by (simp add: withdraw_600_def)
qed

text \<open>
  The claim as it was stated fails: the error \<open>ProcessTransaction\<close> returns is not the
  balance store's error but a new one around it, with another text.
\<close>

theorem balance_error_is_not_unchanged:
  "fst (AtomicBalanceUpdate fmt_2f world_500 ''acc_12345'' ''withdraw'' 600)
     = Inl (New ''insufficient funds: current balance 500.00, requested 600.00'')
   \<and> fst (ProcessTransaction fmt_2f world_500 ''acc_12345'' withdraw_600)
     = Inl (Wrap ''failed to process transaction: ''
              (New ''insufficient funds: current balance 500.00, requested 600.00''))
   \<and> fst (ProcessTransaction fmt_2f world_500 ''acc_12345'' withdraw_600)
     \<noteq> Inl (New ''insufficient funds: current balance 500.00, requested 600.00'')
   \<and> Error (Wrap ''failed to process transaction: ''
              (New ''insufficient funds: current balance 500.00, requested 600.00''))
     = ''failed to process transaction: insufficient funds: current balance 500.00, requested 600.00''"
  by (simp add: run_defs example_defs fmt_2f_examples)

section \<open>The asynchronous path\<close>

text \<open>
  C4. For a stored transaction whose status is not ``pending'', \<open>ProcessTransactionAsync\<close>
  returns the not-in-pending-state error and changes no store: after the one read of the
  ledger, accounts, ledger and queue are as they were and the database was not called.
  (The transaction is looked up by a non-empty ID and the read goes through.)
\<close>

theorem not_pending_is_refused:
  fixes w :: "('f::{plus,minus,ord,zero}) world"
  assumes "transactionID \<noteq> ''''" and "outcome (mongo w) = None"
    and "find (\<lambda>d. txn_TransactionID d = transactionID) (transactions w) = Some t"
    and "txn_Status t \<noteq> ''pending''"
  shows "ProcessTransactionAsync fmt2f w transactionID req
           = (Inl (New (''transaction is not in pending state: '' @ txn_Status t)), mongo_next w)
       \<and> accounts (mongo_next w) = accounts w
       \<and> transactions (mongo_next w) = transactions w
       \<and> queue (mongo_next w) = queue w
       \<and> pg (mongo_next w) = pg w"
  using assms
  by (simp add: ProcessTransactionAsync_def GetTransactionByID_def
      MongoTransactionStorage_GetTransactionByID_def)

theorem not_pending_is_refused_witness:
  "''txn_0007'' \<noteq> '''' \<and> outcome (mongo world_done) = None
   \<and> find (\<lambda>d. txn_TransactionID d = ''txn_0007'') (transactions world_done) = Some done_100
   \<and> txn_Status done_100 \<noteq> ''pending''
   \<and> ProcessTransactionAsync fmt_2f world_done ''txn_0007'' deposit_100
       = (Inl (New ''transaction is not in pending state: completed''), mongo_next world_done)
   \<and> accounts (mongo_next world_done) = accounts world_done
   \<and> transactions (mongo_next world_done) = transactions world_done"
proof -
  have a: "''txn_0007'' \<noteq> ''''" by simp
  have b: "outcome (mongo world_done) = None"
    by (simp add: world_done_def world_500_def outcome_def)
  have c: "find (\<lambda>d. txn_TransactionID d = ''txn_0007'') (transactions world_done) = Some done_100"
    by (simp add: world_done_def done_100_def pending_100_def)
  have d: "txn_Status done_100 \<noteq> ''pending''"
    by (simp add: done_100_def)
  have e: "txn_Status done_100 = ''completed''"
    by (simp add: done_100_def)
  show ?thesis
    using a b c d e not_pending_is_refused [OF a b c d, of fmt_2f deposit_100]
    by simp
qed

subsection \<open>The records both paths write\<close>

lemma sync_records:
  fixes w :: "('f::{plus,minus,ord,zero}) world"
  shows "(\<forall>d \<in> set (transactions (snd (ProcessTransaction fmt2f w accountID req))).
            d \<in> set (transactions w) \<or> balances_match d)
       \<and> (\<forall>t. fst (ProcessTransaction fmt2f w accountID req) = Inr t \<longrightarrow>
            txn_Status t = ''completed'' \<and> balances_match t)"
proof (cases "validateTransactionRequest req")
  case (Some err)
  then show ?thesis by (simp add: ProcessTransaction_def)
next
  case None
  obtain r w1 where upd:
    "AtomicBalanceUpdate fmt2f w accountID (req_Type req) (req_Amount req) = (r, w1)"
    by (cases "AtomicBalanceUpdate fmt2f w accountID (req_Type req) (req_Amount req)")
  have tx1: "transactions w1 = transactions w" and m1: "mongo w1 = mongo w"
    using AtomicBalanceUpdate_frame(1,3) [of fmt2f w accountID "req_Type req" "req_Amount req"] upd
    by simp_all
  show ?thesis
  proof (cases r)
    case (Inl err)
    then show ?thesis using None upd tx1 by (simp add: ProcessTransaction_def)
  next
    case (Inr bb)
    obtain b b' where bb: "bb = (b, b')" by (cases bb)
    from AtomicBalanceUpdate_Inr [OF upd [unfolded Inr bb]]
    have kinds: "(req_Type req = ''deposit'' \<and> b' = b + req_Amount req)
              \<or> (req_Type req = ''withdraw'' \<and> b' = b - req_Amount req)"
      by blast
    show ?thesis
      using None upd Inr bb tx1 m1 kinds
        AtomicBalanceUpdate_frame(1) [of fmt2f _ accountID _ "req_Amount req"]
      by (auto simp: ProcessTransaction_def CreateTransaction_def Let_def case_prod_beta
          balances_match_def split: option.splits)
  qed
qed


lemma async_records:
  fixes w :: "('f::{plus,minus,ord,zero}) world"
  assumes found: "find (\<lambda>d. txn_TransactionID d = transactionID) (transactions w) = Some t0"
    and same: "txn_Type t0 = req_Type req" "txn_Amount t0 = req_Amount req"
  shows "(\<forall>d \<in> set (transactions (snd (ProcessTransactionAsync fmt2f w transactionID req))).
            d \<in> set (transactions w) \<or> balances_match d)
       \<and> (\<forall>t. fst (ProcessTransactionAsync fmt2f w transactionID req) = Inr t \<longrightarrow>
            txn_Status t = ''completed'' \<and> balances_match t)"
proof -
  obtain g w1 where get: "GetTransactionByID w transactionID = (g, w1)"
    by (cases "GetTransactionByID w transactionID")
  have tx1: "transactions w1 = transactions w"
    using GetTransactionByID_frame(2) [of w transactionID] get by simp
  show ?thesis
  proof (cases g)
    case (Inl err)
    then show ?thesis using get tx1 by (simp add: ProcessTransactionAsync_def)
  next
    case (Inr t)
    then have t: "t = t0"
      using GetTransactionByID_Inr [of w transactionID t] get found by simp
    have tid: "txn_TransactionID t0 = transactionID"
      using find_holds [OF found] .
    show ?thesis
    proof (cases "txn_Status t0 = ''pending''")
      case False
      then show ?thesis using get Inr t tx1 by (simp add: ProcessTransactionAsync_def)
    next
      case pending: True
      show ?thesis
      proof (cases "validateTransactionRequest req")
        case (Some err)
        then show ?thesis
          using get Inr t pending tx1
            status_update_records [of _ w1 transactionID "''failed''" "Error err"]
          by (auto simp: ProcessTransactionAsync_def dest: failed_matches)
      next
        case None
        obtain r w2 where upd:
          "AtomicBalanceUpdate fmt2f w1 (txn_AccountID t0) (req_Type req) (req_Amount req) = (r, w2)"
          by (cases "AtomicBalanceUpdate fmt2f w1 (txn_AccountID t0) (req_Type req) (req_Amount req)")
        have tx2: "transactions w2 = transactions w"
          using AtomicBalanceUpdate_frame(1)
            [of fmt2f w1 "txn_AccountID t0" "req_Type req" "req_Amount req"] upd tx1
          by simp
        show ?thesis
        proof (cases r)
          case (Inl err)
          then show ?thesis
            using get Inr t pending None upd tx2
              status_update_records [of _ w2 transactionID "''failed''" "Error err"]
            by (auto simp: ProcessTransactionAsync_def dest: failed_matches)
        next
          case r: (Inr bb)
          obtain b b' where bb: "bb = (b, b')" by (cases bb)
          from AtomicBalanceUpdate_Inr [OF upd [unfolded r bb]]
          have kinds: "(req_Type req = ''deposit'' \<and> b' = b + req_Amount req)
                    \<or> (req_Type req = ''withdraw'' \<and> b' = b - req_Amount req)"
            by blast
          define u where "u =
             \<lparr>txn_ID = txn_ID t0, txn_TransactionID = txn_TransactionID t0,
              txn_AccountID = txn_AccountID t0, txn_Type = txn_Type t0,
              txn_Amount = txn_Amount t0, txn_PreviousBalance = b, txn_NewBalance = b',
              txn_Description = txn_Description t0, txn_Timestamp = txn_Timestamp t0,
              txn_Status = ''completed'', txn_ErrorMessage = ''''\<rparr>"
          have u_ok: "balances_match u" and u_done: "txn_Status u = ''completed''"
            using kinds same by (auto simp: balances_match_def u_def)
          have u_id: "txn_TransactionID u = transactionID"
            using tid by (simp add: u_def)
          obtain ur w3 where wr: "UpdateTransaction w2 u = (ur, w3)"
            by (cases "UpdateTransaction w2 u")
          have rec3: "d \<in> set (transactions w) \<or> balances_match d"
            if "d \<in> set (transactions w3)" for d
          proof -
            from UpdateTransaction_records [of d w2 u] that wr
            consider "d \<in> set (transactions w2)"
              | "d = t0\<lparr>txn_PreviousBalance := txn_PreviousBalance u,
                        txn_NewBalance := txn_NewBalance u,
                        txn_Status := txn_Status u,
                        txn_ErrorMessage := txn_ErrorMessage u\<rparr>"
              using found tx2 u_id by auto
            then show ?thesis
            proof cases
              case 1
              then show ?thesis using tx2 by simp
            next
              case 2
              then have "d = u" by (simp add: u_def)
              then show ?thesis using u_ok by simp
            qed
          qed
          have run: "ProcessTransactionAsync fmt2f w transactionID req =
            (case ur of
               Some err \<Rightarrow>
                 (Inl (Wrap ''failed to update transaction: '' err),
                  snd (UpdateTransactionStatusWithError
                         (snd (AtomicBalanceUpdate fmt2f w3 (txn_AccountID t0)
                                 (if req_Type req = ''withdraw'' then ''deposit'' else ''withdraw'')
                                 (req_Amount req)))
                         transactionID ''failed'' ''Failed to update transaction record''))
             | None \<Rightarrow> (Inr u, w3))"
            using get Inr t pending None upd r bb wr
            by (simp add: ProcessTransactionAsync_def Let_def u_def split: option.splits)
          show ?thesis
          proof (cases ur)
            case None
            then show ?thesis using run rec3 u_ok u_done by simp
          next
            case (Some err)
            have "d \<in> set (transactions w) \<or> balances_match d"
              if "d \<in> set (transactions (snd (ProcessTransactionAsync fmt2f w transactionID req)))"
              for d
            proof -
              from that run Some
              have "d \<in> set (transactions (snd (AtomicBalanceUpdate fmt2f w3 (txn_AccountID t0)
                                 (if req_Type req = ''withdraw'' then ''deposit'' else ''withdraw'')
                                 (req_Amount req))))
                    \<or> txn_Status d = ''failed''"
                using status_update_records [of d _ transactionID "''failed''"
                    "''Failed to update transaction record''"]
                by simp
              then show ?thesis
                using rec3 [of d] failed_matches [of d]
                by (auto simp: AtomicBalanceUpdate_frame(1))
            qed
            then show ?thesis using run Some by simp
          qed
        qed
      qed
    qed
  qed
qed


text \<open>
  C6, as amended. Every record in the ledger after \<open>ProcessTransaction\<close> that was not in
  it before, and the record it returns, has for status ``completed'' a new balance equal to
  the previous balance plus the amount for a deposit and minus the amount for a withdrawal.
  The same holds of \<open>ProcessTransactionAsync\<close> when the type and the amount of the request
  are those of the stored record it processes.
\<close>

theorem completed_records_agree:
  fixes w :: "('f::{plus,minus,ord,zero}) world"
  shows "(\<forall>d \<in> set (transactions (snd (ProcessTransaction fmt2f w accountID req))).
            d \<in> set (transactions w) \<or> balances_match d)
       \<and> (\<forall>t. fst (ProcessTransaction fmt2f w accountID req) = Inr t \<longrightarrow>
            txn_Status t = ''completed'' \<and> balances_match t)
       \<and> (\<forall>t0. find (\<lambda>d. txn_TransactionID d = transactionID) (transactions w) = Some t0
              \<and> txn_Type t0 = req_Type req' \<and> txn_Amount t0 = req_Amount req' \<longrightarrow>
            (\<forall>d \<in> set (transactions (snd (ProcessTransactionAsync fmt2f w transactionID req'))).
               d \<in> set (transactions w) \<or> balances_match d)
          \<and> (\<forall>t. fst (ProcessTransactionAsync fmt2f w transactionID req') = Inr t \<longrightarrow>
               txn_Status t = ''completed'' \<and> balances_match t))"
  using sync_records [of fmt2f w accountID req] async_records [of transactionID w _ req' fmt2f]
  by blast

theorem completed_records_agree_witness:
  "fst (ProcessTransaction fmt_2f world_500 ''acc_12345'' deposit_250) = Inr completed_250
   \<and> balances_match completed_250
   \<and> find (\<lambda>d. txn_TransactionID d = ''txn_0007'') (transactions world_pending) = Some pending_100
   \<and> txn_Type pending_100 = req_Type deposit_100
   \<and> txn_Amount pending_100 = req_Amount deposit_100
   \<and> fst (ProcessTransactionAsync fmt_2f world_pending ''txn_0007'' deposit_100)
       = Inr (pending_100\<lparr>txn_PreviousBalance := 500, txn_NewBalance := 600,
                          txn_Status := ''completed''\<rparr>)
   \<and> balances_match (pending_100\<lparr>txn_PreviousBalance := 500, txn_NewBalance := 600,
                                   txn_Status := ''completed''\<rparr>)"
proof -
  note claim = completed_records_agree
    [of fmt_2f world_500 "''acc_12345''" deposit_250 "''txn_0007''" deposit_100]
  note claim' = completed_records_agree
    [of fmt_2f world_pending "''acc_12345''" deposit_250 "''txn_0007''" deposit_100]
  have s: "fst (ProcessTransaction fmt_2f world_500 ''acc_12345'' deposit_250) = Inr completed_250"
    by (simp add: run_defs example_defs)
  have f: "find (\<lambda>d. txn_TransactionID d = ''txn_0007'') (transactions world_pending)
             = Some pending_100"
    and ty: "txn_Type pending_100 = req_Type deposit_100"
    and am: "txn_Amount pending_100 = req_Amount deposit_100"
    by (simp_all add: example_defs)
  have a: "fst (ProcessTransactionAsync fmt_2f world_pending ''txn_0007'' deposit_100)
       = Inr (pending_100\<lparr>txn_PreviousBalance := 500, txn_NewBalance := 600,
                          txn_Status := ''completed''\<rparr>)"
    by (simp add: run_defs example_defs)
  from claim [THEN conjunct2, THEN conjunct1, rule_format, OF s]
  have m1: "balances_match completed_250"
    by simp
  from claim' [THEN conjunct2, THEN conjunct2, rule_format, OF conjI [OF f conjI [OF ty am]]]
  have "\<forall>t. fst (ProcessTransactionAsync fmt_2f world_pending ''txn_0007'' deposit_100) = Inr t
          \<longrightarrow> txn_Status t = ''completed'' \<and> balances_match t"
    by blast
  with a have m2: "balances_match (pending_100\<lparr>txn_PreviousBalance := 500,
                     txn_NewBalance := 600, txn_Status := ''completed''\<rparr>)"
    by blast
  show ?thesis
    using s m1 f ty am a m2 by blast
qed

text \<open>
  The claim as it was stated fails on the asynchronous path for a request that differs
  from the stored record: the pending record is a deposit of 100.00, the request a
  withdrawal of 30.00 from a balance of 500.00. The balance update follows the request, the
  record keeps its own type and amount, and is completed as a deposit of 100.00 from
  500.00 to 470.00.
\<close>

theorem mismatched_request_breaks_record:
  "find (\<lambda>d. txn_TransactionID d = ''txn_0007'') (transactions world_pending) = Some pending_100
   \<and> fst (ProcessTransactionAsync fmt_2f world_pending ''txn_0007'' withdraw_30)
       = Inr (pending_100\<lparr>txn_PreviousBalance := 500, txn_NewBalance := 470,
                          txn_Status := ''completed''\<rparr>)
   \<and> transactions (snd (ProcessTransactionAsync fmt_2f world_pending ''txn_0007'' withdraw_30))
       = [pending_100\<lparr>txn_PreviousBalance := 500, txn_NewBalance := 470,
                       txn_Status := ''completed''\<rparr>]
   \<and> txn_Type pending_100 = ''deposit'' \<and> txn_Amount pending_100 = 100
   \<and> \<not> balances_match (pending_100\<lparr>txn_PreviousBalance := 500, txn_NewBalance := 470,
                                      txn_Status := ''completed''\<rparr>)"
  by (simp add: run_defs example_defs balances_match_def)

section \<open>The asynchronous submission\<close>

text \<open>
  C10. A withdrawal request whose amount exceeds the balance the handler has just read is
  answered with 400 ``Insufficient funds'' before any pending record is created and before
  anything is published: the ledger, the queue and the scripts of both drivers are as they
  were.
\<close>

theorem withdrawal_above_balance_is_not_queued:
  fixes w :: "('f::{plus,minus,ord,zero}) world"
  assumes "outcome (pg w) = None" and "accounts w accountID = Some account"
    and "req_Type req = ''withdraw''" and "acc_Balance account < req_Amount req"
  shows "processTransactionAsync fmt2f w accountID req
           = ((400, [(''error'', JString ''Insufficient funds''),
                     (''details'',
                      JString ''Current balance is insufficient for this withdrawal'')]),
              pg_next w)
       \<and> transactions (pg_next w) = transactions w
       \<and> queue (pg_next w) = queue w
       \<and> mongo (pg_next w) = mongo w
       \<and> amqp (pg_next w) = amqp w"
  using assms
  by (simp add: processTransactionAsync_def TransactionService_GetAccountByID_def
      PostgresAccountStorage_GetAccountByID_def)

theorem withdrawal_above_balance_is_not_queued_witness:
  "outcome (pg world_500) = None \<and> accounts world_500 ''acc_12345'' = Some account_500
   \<and> req_Type withdraw_600 = ''withdraw'' \<and> acc_Balance account_500 < req_Amount withdraw_600
   \<and> processTransactionAsync fmt_2f world_500 ''acc_12345'' withdraw_600
       = ((400, [(''error'', JString ''Insufficient funds''),
                 (''details'',
                  JString ''Current balance is insufficient for this withdrawal'')]),
          pg_next world_500)
   \<and> transactions (pg_next world_500) = [] \<and> queue (pg_next world_500) = []"
proof -
  have a: "outcome (pg world_500) = None"
    by (simp add: world_500_def outcome_def)
  have b: "accounts world_500 ''acc_12345'' = Some account_500"
    by (simp add: world_500_def)
  have c: "req_Type withdraw_600 = ''withdraw''"
    by (simp add: withdraw_600_def)
  have d: "acc_Balance account_500 < req_Amount withdraw_600"
    by (simp add: withdraw_600_def account_500_def)
  have e: "transactions world_500 = []" "queue world_500 = []"
    by (simp_all add: world_500_def)
  show ?thesis
    using a b c d e withdrawal_above_balance_is_not_queued [OF a b c d, of fmt_2f]
    by simp
qed







section \<open>The worker's classification of errors\<close>

lemma HasPrefix_append: "HasPrefix (s @ r) s"
  by (induction s) auto

lemma Contains_HasPrefix: "HasPrefix x s \<Longrightarrow> Contains (p @ x) s"
proof (induction p)
  case Nil
  then show ?case by (cases x; cases s) auto
next
  case (Cons c p)
  then show ?case by simp
qed

lemma Contains_append: "Contains (p @ s @ r) s"
  by (simp add: Contains_HasPrefix HasPrefix_append)

lemma ToLower_append: "ToLower (a @ b) = ToLower a @ ToLower b"
  by (simp add: ToLower_def)

lemma isBusinessError_Contains:
  "busErr \<in> set businessErrors \<Longrightarrow> ToLower (Error err) = p @ busErr @ r \<Longrightarrow> isBusinessError err"
  using Contains_append [of p busErr r]
  by (auto simp: isBusinessError_def Let_def list_ex_iff)

lemma insufficient_funds_is_business:
  "isBusinessError (Wrap ''failed to update balance: ''
     (New (''insufficient funds: current balance '' @ x @ '', requested '' @ y)))"
proof -
  have l: "ToLower ''failed to update balance: '' = ''failed to update balance: ''"
    "ToLower ''insufficient funds: current balance ''
       = ''insufficient funds'' @ '': current balance ''"
    by code_simp+
  have "ToLower (Error (Wrap ''failed to update balance: ''
          (New (''insufficient funds: current balance '' @ x @ '', requested '' @ y))))
        = ''failed to update balance: '' @ ''insufficient funds''
          @ ('': current balance '' @ ToLower (x @ '', requested '' @ y))"
    by (simp only: Error.simps ToLower_append l append_assoc)
  moreover have "''insufficient funds'' \<in> set businessErrors"
    by (simp add: businessErrors_def)
  ultimately show ?thesis
    by (rule isBusinessError_Contains [rotated])
qed

lemma account_not_found_is_business:
  "isBusinessError (Wrap ''failed to update balance: '' (New ''account not found''))"
  by code_simp

lemma amount_is_business: "isBusinessError (New ''amount must be greater than 0'')"
  by code_simp

lemma not_pending_is_business:
  "isBusinessError (New (''transaction is not in pending state: '' @ status))"
proof -
  have l: "ToLower ''transaction is not in pending state: ''
             = ''transaction is not in pending state'' @ '': ''"
    by code_simp
  have "ToLower (Error (New (''transaction is not in pending state: '' @ status)))
        = [] @ ''transaction is not in pending state'' @ ('': '' @ ToLower status)"
    by (simp only: Error.simps ToLower_append l append_assoc append_Nil)
  moreover have "''transaction is not in pending state'' \<in> set businessErrors"
    by (simp add: businessErrors_def)
  ultimately show ?thesis
    by (rule isBusinessError_Contains [rotated])
qed

text \<open>
  C5, at the input where the code departs from it. A message whose type is not one of the
  two makes \<open>ProcessTransactionAsync\<close> return the validation error
  ``transaction type must be either 'deposit' or 'withdraw'''; none of the five texts of
  \<open>businessErrors\<close> occurs in it (the list has ``invalid transaction type'', the text
  of the balance store's error, which validation keeps from being reached), so
  \<open>isBusinessError\<close> is false and the worker rejects the delivery with requeue. The four
  other classes are matched (lemmas \<open>insufficient_funds_is_business\<close>,
  \<open>account_not_found_is_business\<close>, \<open>amount_is_business\<close>,
  \<open>not_pending_is_business\<close>).
\<close>

theorem worker_requeues_invalid_type:
  "fst (ProcessTransactionAsync fmt_2f world_pending ''txn_0007'' transfer_100)
     = Inl (New (''transaction type must be either 'deposit' or 'withdraw'' @ [CHR 0x27]))
   \<and> \<not> isBusinessError
         (New (''transaction type must be either 'deposit' or 'withdraw'' @ [CHR 0x27]))
   \<and> fst (processMessage fmt_2f world_pending (Inr message_transfer)) = Nack True"
proof -
  let ?E = "New (''transaction type must be either 'deposit' or 'withdraw'' @ [CHR 0x27])"
  have run: "fst (ProcessTransactionAsync fmt_2f world_pending ''txn_0007'' transfer_100) = Inl ?E"
    by (simp add: run_defs example_defs)
  have nb: "\<not> isBusinessError ?E"
    by code_simp
  have req: "\<lparr>req_Type = msg_Type message_transfer, req_Amount = msg_Amount message_transfer,
              req_Description = msg_Reference message_transfer\<rparr> = transfer_100"
    and mid: "msg_ID message_transfer = ''txn_0007''"
    by (simp_all add: message_transfer_def transfer_100_def)
  obtain w' where eq:
    "ProcessTransactionAsync fmt_2f world_pending ''txn_0007'' transfer_100 = (Inl ?E, w')"
    using run by (cases "ProcessTransactionAsync fmt_2f world_pending ''txn_0007'' transfer_100") simp
  have "fst (processMessage fmt_2f world_pending (Inr message_transfer)) = Nack True"
    using nb by (simp add: processMessage_def Let_def req mid eq)
  then show ?thesis
    using run nb by blast
qed

end
